theory Spec2Isabelle
  imports Main
begin

section \<open>JavaScript values\<close>

text \<open>
  The library is written in TypeScript; its types are erased before it runs, so the
  embedding is of the JavaScript that remains. A value is \<open>undefined\<close>, \<open>null\<close>, a
  boolean, a number (integers suffice: the library does no arithmetic), a string, or a
  plain object, kept as the list of its own properties in insertion order.
  An exception is either the runtime's \<open>TypeError\<close> or whatever value a callback threw.
\<close>


datatype jsval =
    Undefined
  | Null
  | Bool bool
  | Num int
  | Str string
  | Obj "(string \<times> jsval) list"

datatype error = TypeError | Thrown jsval

text \<open>
  The enum \<open>DataKey\<close> of the primary module: \<open>Success = "value"\<close>, \<open>Failure = "error"\<close>.
\<close>

datatype DataKey = Success | Failure

fun data_key :: "DataKey \<Rightarrow> string" where
  "data_key Success = ''value''"
| "data_key Failure = ''error''"

text \<open>
  The conditional operator \<open>c ? a : b\<close> branches on the truthiness of \<open>c\<close>.
\<close>

fun to_boolean :: "jsval \<Rightarrow> bool" where
  "to_boolean Undefined = False"
| "to_boolean Null = False"
| "to_boolean (Bool b) = b"
| "to_boolean (Num n) = (n \<noteq> 0)"
| "to_boolean (Str s) = (s \<noteq> [])"
| "to_boolean (Obj fs) = True"

text \<open>
  Reading a property: on \<open>undefined\<close> and \<open>null\<close> it throws a \<open>TypeError\<close>; on an
  object a missing property reads as \<open>undefined\<close>; a primitive has none of the
  properties the library reads (\<open>ok\<close>, \<open>value\<close>, \<open>error\<close>).
\<close>

fun get_prop :: "jsval \<Rightarrow> string \<Rightarrow> error + jsval" where
  "get_prop Undefined k = Inl TypeError"
| "get_prop Null k = Inl TypeError"
| "get_prop (Obj fs) k = Inr (case map_of fs k of None \<Rightarrow> Undefined | Some v \<Rightarrow> v)"
| "get_prop _ k = Inr Undefined"

text \<open>The own property names of a value, as \<open>Object.keys\<close> lists them.\<close>

fun keys :: "jsval \<Rightarrow> string list" where
  "keys (Obj fs) = map fst fs"
| "keys _ = []"

text \<open>
  An argument of a call is either omitted (\<open>None\<close>) or supplied (\<open>Some v\<close>). A parameter
  declared with a default initialiser, \<open>p = d\<close>, is bound to \<open>d\<close> when the argument is
  omitted and also when the supplied argument is \<open>undefined\<close>: the language evaluates
  the initialiser whenever the value arriving for the parameter is \<open>undefined\<close>, and an
  omitted argument arrives as \<open>undefined\<close>.
\<close>

fun param_default :: "jsval \<Rightarrow> jsval option \<Rightarrow> jsval" where
  "param_default d None = d"
| "param_default d (Some v) = (if v = Undefined then d else v)"

section \<open>The primary module\<close>

text \<open>
  \<^verbatim>\<open>function success(value = null) { return { ok: true, [DataKey.Success]: value }; }\<close>
  \<^verbatim>\<open>function failure(error = null) { return { ok: false, [DataKey.Failure]: error }; }\<close>
  \<^verbatim>\<open>function from(test, data = null) { return test ? success(data) : failure(data); }\<close>
\<close>

definition success :: "jsval option \<Rightarrow> jsval" where
  "success a = (let value = param_default Null a
                in Obj [(''ok'', Bool True), (data_key Success, value)])"

definition failure :: "jsval option \<Rightarrow> jsval" where
  "failure a = (let error = param_default Null a
                in Obj [(''ok'', Bool False), (data_key Failure, error)])"

definition from_result :: "jsval \<Rightarrow> jsval option \<Rightarrow> jsval" where
  "from_result test a = (let data = param_default Null a
                         in if to_boolean test then success (Some data) else failure (Some data))"

text \<open>
  \<^verbatim>\<open>function inspect(result) { return result.ok ? result[DataKey.Success] : result[DataKey.Failure]; }\<close>
  \<^verbatim>\<open>function invert(result) { return result.ok ? failure(result[DataKey.Success]) : success(result[DataKey.Failure]); }\<close>
\<close>

definition inspect :: "jsval \<Rightarrow> error + jsval" where
  "inspect result =
     (case get_prop result ''ok'' of
        Inl e \<Rightarrow> Inl e
      | Inr c \<Rightarrow> if to_boolean c then get_prop result (data_key Success)
                 else get_prop result (data_key Failure))"

definition invert :: "jsval \<Rightarrow> error + jsval" where
  "invert result =
     (case get_prop result ''ok'' of
        Inl e \<Rightarrow> Inl e
      | Inr c \<Rightarrow>
          if to_boolean c
          then (case get_prop result (data_key Success) of
                  Inl e \<Rightarrow> Inl e
                | Inr v \<Rightarrow> Inr (failure (Some v)))
          else (case get_prop result (data_key Failure) of
                  Inl e \<Rightarrow> Inl e
                | Inr v \<Rightarrow> Inr (success (Some v))))"

text \<open>
  \<^verbatim>\<open>function unwrap(result, callback) { return result.ok ? result[DataKey.Success] : callback?.(result[DataKey.Failure]); }\<close>

  A callback is caller code: it may read and change the caller's state and may throw.
  It is a function from its argument and the state before the call to its outcome and
  the state after; \<open>unwrap\<close> threads that state, so every invocation of the callback
  shows in the final state. The optional call \<open>callback?.(...)\<close> yields \<open>undefined\<close>,
  without evaluating the argument, when no callback was passed.
\<close>

type_synonym 's callback = "jsval \<Rightarrow> 's \<Rightarrow> (error + jsval) \<times> 's"

definition unwrap :: "jsval \<Rightarrow> 's callback option \<Rightarrow> 's \<Rightarrow> (error + jsval) \<times> 's" where
  "unwrap result callback s =
     (case get_prop result ''ok'' of
        Inl e \<Rightarrow> (Inl e, s)
      | Inr c \<Rightarrow>
          if to_boolean c then (get_prop result (data_key Success), s)
          else (case callback of
                  None \<Rightarrow> (Inr Undefined, s)
                | Some f \<Rightarrow>
                    (case get_prop result (data_key Failure) of
                       Inl e \<Rightarrow> (Inl e, s)
                     | Inr v \<Rightarrow> f v s)))"

text \<open>
  A recording callback, as a test spy: it returns what the pure function \<open>f\<close> returns
  and appends its argument to the log that serves as the caller's state.
\<close>

definition recording :: "(jsval \<Rightarrow> error + jsval) \<Rightarrow> jsval list callback" where
  "recording f v calls = (f v, calls @ [v])"

text \<open>
  The shape of a Result: the property \<open>ok\<close> holds a boolean and the own properties are
  exactly \<open>ok\<close> and the payload field, \<open>value\<close> when \<open>ok\<close> is true and \<open>error\<close>
  when it is false.
\<close>

definition is_result :: "jsval \<Rightarrow> bool" where
  "is_result r =
     (case get_prop r ''ok'' of
        Inr (Bool b) \<Rightarrow> keys r = [''ok'', data_key (if b then Success else Failure)]
      | _ \<Rightarrow> False)"

section \<open>The second variant of the module\<close>

text \<open>
  The other module in the source names the payload fields directly and declares
  \<open>from\<close> with the default \<open>undefined\<close>:
  \<^verbatim>\<open>function success(value = null) { return { ok: true, value }; }\<close>
  \<^verbatim>\<open>function failure(error = null) { return { ok: false, error }; }\<close>
  \<^verbatim>\<open>function from(test, data = undefined) { return test ? success(data) : failure(data); }\<close>
\<close>

definition success_v2 :: "jsval option \<Rightarrow> jsval" where
  "success_v2 a = (let value = param_default Null a
                   in Obj [(''ok'', Bool True), (''value'', value)])"

definition failure_v2 :: "jsval option \<Rightarrow> jsval" where
  "failure_v2 a = (let error = param_default Null a
                   in Obj [(''ok'', Bool False), (''error'', error)])"

definition from_result_v2 :: "jsval \<Rightarrow> jsval option \<Rightarrow> jsval" where
  "from_result_v2 test a =
     (let data = param_default Undefined a
      in if to_boolean test then success_v2 (Some data) else failure_v2 (Some data))"

section \<open>What the constructors build\<close>

lemma success_eq: "success a = Obj [(''ok'', Bool True), (''value'', param_default Null a)]"
  by (simp add: success_def)

lemma failure_eq: "failure a = Obj [(''ok'', Bool False), (''error'', param_default Null a)]"
  by (simp add: failure_def)

lemma param_default_defined: "param_default Null a \<noteq> Undefined"
  by (cases a) simp_all

lemma from_result_eq:
  "from_result test a = (if to_boolean test then success a else failure a)"
  by (simp add: from_result_def success_eq failure_eq param_default_defined Let_def)

lemma inspect_success_eq: "inspect (success a) = Inr (param_default Null a)"
  by (simp add: inspect_def success_eq)

lemma inspect_failure_eq: "inspect (failure a) = Inr (param_default Null a)"
  by (simp add: inspect_def failure_eq)

lemma invert_success_eq: "invert (success a) = Inr (failure a)"
  by (simp add: invert_def success_eq failure_eq param_default_defined)

lemma invert_failure_eq: "invert (failure a) = Inr (success a)"
  by (simp add: invert_def success_eq failure_eq param_default_defined)

lemma is_result_success: "is_result (success a)"
  by (simp add: is_result_def success_eq)

lemma is_result_failure: "is_result (failure a)"
  by (simp add: is_result_def failure_eq)

lemma is_result_shape:
  "is_result r \<Longrightarrow>
     length (keys r) = 2 \<and> \<not> (''value'' \<in> set (keys r) \<and> ''error'' \<in> set (keys r))"
  by (auto simp: is_result_def split: sum.splits jsval.splits if_splits)

lemma invert_is_result: "invert r = Inr r' \<Longrightarrow> is_result r'"
  by (auto simp: invert_def is_result_success is_result_failure split: sum.splits if_splits)

lemma unwrap_success_eq: "unwrap (success a) callback s = (Inr (param_default Null a), s)"
  by (simp add: unwrap_def success_eq)

lemma unwrap_failure_eq: "unwrap (failure a) (Some f) s = f (param_default Null a) s"
  by (simp add: unwrap_def failure_eq)

lemma from_variants_agree: "from_result_v2 test a = from_result test a"
  by (cases a)
     (simp_all add: from_result_v2_def from_result_def success_v2_def failure_v2_def
        success_eq failure_eq Let_def)

section \<open>Construction\<close>

text \<open>
  Claim C1. For every boolean \<open>b\<close> and every payload \<open>x\<close>, \<open>from(b, x)\<close> is the very
  record \<open>success(x)\<close> when \<open>b\<close> is true and \<open>failure(x)\<close> when \<open>b\<close> is false; the
  \<open>ok\<close> field of \<open>from(true)\<close> is true and that of \<open>from(false)\<close> is false, and in
  general the \<open>ok\<close> field of \<open>from(b, ...)\<close> is \<open>b\<close> whether or not a payload is passed.
\<close>

theorem from_result_correct:
  "from_result (Bool b) (Some x) = (if b then success (Some x) else failure (Some x))
   \<and> get_prop (from_result (Bool True) None) ''ok'' = Inr (Bool True)
   \<and> get_prop (from_result (Bool False) None) ''ok'' = Inr (Bool False)
   \<and> get_prop (from_result (Bool b) a) ''ok'' = Inr (Bool b)"
  by (simp add: from_result_eq success_eq failure_eq)

text \<open>
  Claim C8. Called with no argument, \<open>success()\<close> builds the Success
  \<open>{ok: true, value: null}\<close> and \<open>failure()\<close> the Failure \<open>{ok: false, error: null}\<close>:
  the payload is the declared default \<open>null\<close>, and each is the same record as the
  constructor builds when \<open>null\<close> is passed.
\<close>

theorem constructors_default_null:
  "success None = Obj [(''ok'', Bool True), (''value'', Null)]
   \<and> failure None = Obj [(''ok'', Bool False), (''error'', Null)]
   \<and> success (Some Null) = Obj [(''ok'', Bool True), (''value'', Null)]
   \<and> failure (Some Null) = Obj [(''ok'', Bool False), (''error'', Null)]
   \<and> success None = success (Some Null)
   \<and> failure None = failure (Some Null)
   \<and> inspect (success None) = Inr Null
   \<and> inspect (failure None) = Inr Null"
  by (simp add: success_eq failure_eq inspect_def)

text \<open>
  Claim C7. Whatever \<open>success\<close>, \<open>failure\<close>, \<open>from\<close> and \<open>invert\<close> return is a record
  of exactly two fields, the boolean \<open>ok\<close> and one payload field, named \<open>value\<close> when
  \<open>ok\<close> is true and \<open>error\<close> when it is false, so never both; \<open>success(x).ok\<close> is
  true and \<open>failure(x).ok\<close> is false.
\<close>

theorem results_are_two_field_records:
  "is_result (success a)
   \<and> is_result (failure a)
   \<and> is_result (from_result t a)
   \<and> (invert r = Inr r' \<longrightarrow> is_result r')
   \<and> (is_result q \<longrightarrow>
        length (keys q) = 2 \<and> \<not> (''value'' \<in> set (keys q) \<and> ''error'' \<in> set (keys q)))
   \<and> keys (success a) = [''ok'', ''value'']
   \<and> keys (failure a) = [''ok'', ''error'']
   \<and> get_prop (success a) ''ok'' = Inr (Bool True)
   \<and> get_prop (failure a) ''ok'' = Inr (Bool False)"
proof -
  have "is_result (from_result t a)"
    by (simp add: from_result_eq is_result_success is_result_failure)
  moreover have "invert r = Inr r' \<longrightarrow> is_result r'"
    using invert_is_result by blast
  moreover have "is_result q \<longrightarrow>
      length (keys q) = 2 \<and> \<not> (''value'' \<in> set (keys q) \<and> ''error'' \<in> set (keys q))"
    using is_result_shape by blast
  moreover have "keys (success a) = [''ok'', ''value''] \<and> keys (failure a) = [''ok'', ''error'']"
    by (simp add: success_eq failure_eq)
  moreover have "get_prop (success a) ''ok'' = Inr (Bool True)
      \<and> get_prop (failure a) ''ok'' = Inr (Bool False)"
    by (simp add: success_eq failure_eq)
  ultimately show ?thesis
    using is_result_success is_result_failure by blast
qed

theorem results_are_two_field_records_witness:
  "invert (Obj [(''ok'', Bool True), (''value'', Num 42)])
     = Inr (Obj [(''ok'', Bool False), (''error'', Num 42)])
   \<and> is_result (Obj [(''ok'', Bool False), (''error'', Num 42)])
   \<and> length (keys (Obj [(''ok'', Bool False), (''error'', Num 42)])) = 2
   \<and> ''value'' \<notin> set (keys (Obj [(''ok'', Bool False), (''error'', Num 42)]))"
proof -
  let ?r = "Obj [(''ok'', Bool True), (''value'', Num 42)]"
  let ?r' = "Obj [(''ok'', Bool False), (''error'', Num 42)]"
  have inv: "invert ?r = Inr ?r'"
    by (simp add: invert_def failure_def)
  from results_are_two_field_records [of None Null ?r ?r' ?r'] inv
  have "is_result ?r'" and "length (keys ?r') = 2"
    by blast+
  with inv show ?thesis by simp
qed

section \<open>Inversion\<close>

text \<open>
  Claim C6. For every payload \<open>x\<close>, \<open>invert(success(x))\<close> returns the very record
  \<open>failure(x)\<close> and \<open>invert(failure(x))\<close> the very record \<open>success(x)\<close>. The role is
  swapped and the payload is carried over unchanged: \<open>success(x)\<close> is the record with
  \<open>ok\<close> true and a payload \<open>p\<close> under \<open>value\<close>, and \<open>invert\<close> returns the record with
  \<open>ok\<close> false and the same \<open>p\<close> under \<open>error\<close>; symmetrically for \<open>failure(x)\<close>. The
  payload \<open>p\<close> is \<open>x\<close> itself, except that the constructor has already stored \<open>null\<close>
  when \<open>x\<close> is \<open>undefined\<close>.
\<close>

theorem invert_swaps:
  "invert (success (Some x)) = Inr (failure (Some x))
   \<and> invert (failure (Some x)) = Inr (success (Some x))
   \<and> success (Some x)
       = Obj [(''ok'', Bool True), (''value'', if x = Undefined then Null else x)]
   \<and> invert (success (Some x))
       = Inr (Obj [(''ok'', Bool False), (''error'', if x = Undefined then Null else x)])
   \<and> failure (Some x)
       = Obj [(''ok'', Bool False), (''error'', if x = Undefined then Null else x)]
   \<and> invert (failure (Some x))
       = Inr (Obj [(''ok'', Bool True), (''value'', if x = Undefined then Null else x)])"
  by (simp add: invert_def success_eq failure_eq)

text \<open>
  A Result that holds a payload other than \<open>undefined\<close> is restored by inverting twice.
\<close>

lemma invert_twice_defined:
  assumes "v \<noteq> Undefined"
  shows "invert (Obj [(''ok'', Bool True), (''value'', v)])
           = Inr (Obj [(''ok'', Bool False), (''error'', v)])"
    and "invert (Obj [(''ok'', Bool False), (''error'', v)])
           = Inr (Obj [(''ok'', Bool True), (''value'', v)])"
  using assms by (simp_all add: invert_def success_eq failure_eq)

text \<open>
  Claim C2. Inverting a Result twice should give the Result back. On the Result
  \<open>{ok: true, value: undefined}\<close> the first inversion passes \<open>undefined\<close> to
  \<open>failure\<close>, whose default initialiser replaces it by \<open>null\<close>; the second inversion
  returns \<open>{ok: true, value: null}\<close>, which is not the Result inverted.
\<close>

theorem invert_twice_undefined_payload:
  "invert (Obj [(''ok'', Bool True), (''value'', Undefined)])
     = Inr (Obj [(''ok'', Bool False), (''error'', Null)])
   \<and> invert (Obj [(''ok'', Bool False), (''error'', Null)])
     = Inr (Obj [(''ok'', Bool True), (''value'', Null)])
   \<and> Obj [(''ok'', Bool True), (''value'', Null)]
     \<noteq> Obj [(''ok'', Bool True), (''value'', Undefined)]"
  by (simp add: invert_def success_eq failure_eq)

section \<open>Inspection\<close>

text \<open>
  On a payload other than \<open>undefined\<close>, \<open>inspect\<close> returns the payload the constructor
  was given, and it returns without an exception on every Result.
\<close>

lemma inspect_payload_defined:
  "x \<noteq> Undefined \<Longrightarrow> inspect (success (Some x)) = Inr x \<and> inspect (failure (Some x)) = Inr x"
  by (simp add: inspect_success_eq inspect_failure_eq)

lemma inspect_total: "is_result r \<Longrightarrow> \<exists>v. inspect r = Inr v"
  by (cases r) (auto simp: is_result_def inspect_def)

text \<open>
  Claim C5. \<open>inspect(success(x))\<close> and \<open>inspect(failure(x))\<close> should return \<open>x\<close>. At
  \<open>x = undefined\<close> both return \<open>null\<close>: the constructors' default initialiser has
  replaced the payload.
\<close>

theorem inspect_undefined_payload:
  "inspect (success (Some Undefined)) = Inr Null
   \<and> inspect (failure (Some Undefined)) = Inr Null"
  by (simp add: inspect_success_eq inspect_failure_eq)

section \<open>Unwrapping\<close>

text \<open>
  On payloads other than \<open>undefined\<close>: unwrapping a success returns its payload and
  leaves the caller's state as it was, whatever the callback; unwrapping a failure is
  one run of the callback on the payload, from the state \<open>unwrap\<close> was entered with.
\<close>

lemma unwrap_success_defined:
  "x \<noteq> Undefined \<Longrightarrow> unwrap (success (Some x)) callback s = (Inr x, s)"
  by (simp add: unwrap_success_eq)

lemma unwrap_failure_defined:
  "e \<noteq> Undefined \<Longrightarrow> unwrap (failure (Some e)) (Some f) s = f e s"
  by (simp add: unwrap_failure_eq)

lemma unwrap_failure_recorded:
  "e \<noteq> Undefined \<Longrightarrow> unwrap (failure (Some e)) (Some (recording f)) [] = (f e, [e])"
  by (simp add: unwrap_failure_eq recording_def)

text \<open>
  Claim C3. \<open>unwrap(failure(e), f)\<close> should return \<open>f(e)\<close> after one call of \<open>f\<close> on
  \<open>e\<close>. At \<open>e = undefined\<close>, with the identity as \<open>f\<close>, the callback is called once on
  \<open>null\<close> and \<open>unwrap\<close> returns \<open>null\<close>, where \<open>f(undefined)\<close> is \<open>undefined\<close>.
\<close>

theorem unwrap_failure_undefined_payload:
  "unwrap (failure (Some Undefined)) (Some (recording Inr)) [] = (Inr Null, [Null])
   \<and> recording Inr Undefined [] = (Inr Undefined, [Undefined])"
  by (simp add: unwrap_failure_eq recording_def)

text \<open>
  Claim C4. \<open>unwrap(success(x), callback)\<close> should return \<open>x\<close> without calling the
  callback. At \<open>x = undefined\<close> the callback is indeed not called, but \<open>unwrap\<close>
  returns \<open>null\<close>.
\<close>

theorem unwrap_success_undefined_payload:
  "unwrap (success (Some Undefined)) (Some (recording f)) [] = (Inr Null, [])"
  by (simp add: unwrap_success_eq)

text \<open>
  Claim C10. In the primary module, \<open>unwrap(failure(e))\<close> called without a callback
  returns \<open>undefined\<close>; it throws nothing and leaves the caller's state as it was.
\<close>

theorem unwrap_failure_no_callback:
  "unwrap (failure (Some e)) None s = (Inr Undefined, s)"
  by (simp add: unwrap_def failure_eq)

section \<open>The two variants of from\<close>

text \<open>
  Claim C9. The second variant declares \<open>from(test)\<close> with the payload \<open>undefined\<close>
  where the primary module declares \<open>null\<close>. Called without a payload, the second
  variant passes \<open>undefined\<close> on to its own \<open>success\<close> or \<open>failure\<close>, whose default
  initialiser replaces it by \<open>null\<close>: the Result it returns holds \<open>null\<close>, as the
  primary module's does.
\<close>

theorem from_v2_default_payload:
  "from_result_v2 (Bool True) None = Obj [(''ok'', Bool True), (''value'', Null)]
   \<and> from_result_v2 (Bool False) None = Obj [(''ok'', Bool False), (''error'', Null)]
   \<and> from_result (Bool True) None = Obj [(''ok'', Bool True), (''value'', Null)]
   \<and> from_result (Bool False) None = Obj [(''ok'', Bool False), (''error'', Null)]"
  by (simp add: from_result_v2_def from_result_def success_v2_def failure_v2_def
        success_eq failure_eq)

end
